theory Spec2Isabelle
  imports Complex_Main "HOL-Library.Log_Nat"
begin

section \<open>The uploaded table\<close>

text \<open>
  \<^verbatim>\<open>Data.py\<close> is one Streamlit script over one pandas DataFrame \<open>df\<close>. A column has a
  label, a declared dtype and one cell per row; a null cell (\<open>NaN\<close>/\<open>None\<close>) is \<open>None\<close>,
  any other cell is \<open>Some v\<close>. The type \<open>'v\<close> of the non-null values is left open: the
  script never looks at a value except through pandas. The rows are labelled by the
  frame's index: the default \<open>RangeIndex\<close> (0, 1, ...), or the labels \<open>read_csv\<close> took from
  the first field of every row.

  The dtypes are the ones \<open>pd.read_csv\<close> infers without options (int64, uint64, float64,
  bool, object), plus category and datetime64, which \<open>select_dtypes\<close> distinguishes.
\<close>

datatype dtype = Int64 | UInt64 | Float64 | Bool | Object | Category | Datetime64

record 'v column =
  name :: string
  dtype :: dtype
  cells :: "'v option list"

datatype 'v index = RangeIndex | RowLabels "'v option list"

record 'v table =
  columns :: "'v column list"
  nrows :: nat
  index :: "'v index"

text \<open>What a parsed frame satisfies: every column has one cell per row, and so has the
  index; labels are unique (\<open>read_csv\<close> renames a repeated header) and there is at least
  one column.\<close>

definition wf_table :: "'v table \<Rightarrow> bool" where
  "wf_table d \<longleftrightarrow>
     columns d \<noteq> [] \<and> distinct (map name (columns d)) \<and>
     list_all (\<lambda>c. length (cells c) = nrows d) (columns d) \<and>
     (case index d of RangeIndex \<Rightarrow> True | RowLabels ls \<Rightarrow> length ls = nrows d)"

text \<open>\<open>df.shape\<close>\<close>

definition shape :: "'v table \<Rightarrow> nat \<times> nat" where
  "shape d = (nrows d, length (columns d))"

subsection \<open>Column classification (lines 58-59)\<close>

text \<open>
  \<^verbatim>\<open>categorical_cols = df.select_dtypes(include=["object", "category"]).columns.tolist()\<close>
  \<^verbatim>\<open>numeric_cols = df.select_dtypes(include=np.number).columns.tolist()\<close>

  \<open>select_dtypes\<close> keeps, in order, the columns whose dtype is among the included ones.
  \<open>np.number\<close> covers the integer and floating dtypes; it covers neither bool nor
  datetime64.
\<close>

definition np_number :: "dtype \<Rightarrow> bool" where
  "np_number t \<longleftrightarrow> t \<in> set [Int64, UInt64, Float64]"

definition select_dtypes :: "(dtype \<Rightarrow> bool) \<Rightarrow> 'v table \<Rightarrow> 'v table" where
  "select_dtypes incl d = d\<lparr>columns := filter (\<lambda>c. incl (dtype c)) (columns d)\<rparr>"

definition columns_tolist :: "'v table \<Rightarrow> string list" where
  "columns_tolist d = map name (columns d)"

definition categorical_cols_of :: "'v table \<Rightarrow> string list" where
  "categorical_cols_of d = columns_tolist (select_dtypes (\<lambda>t. t \<in> set [Object, Category]) d)"

definition numeric_cols_of :: "'v table \<Rightarrow> string list" where
  "numeric_cols_of d = columns_tolist (select_dtypes np_number d)"

subsection \<open>Profiling (lines 32-76)\<close>

text \<open>\<open>df.head()\<close>: the first five rows.\<close>

definition head_df :: "'v table \<Rightarrow> 'v table" where
  "head_df d = \<lparr>columns = map (\<lambda>c. c\<lparr>cells := take 5 (cells c)\<rparr>) (columns d),
               nrows = min 5 (nrows d),
               index = (case index d of RangeIndex \<Rightarrow> RangeIndex
                        | RowLabels ls \<Rightarrow> RowLabels (take 5 ls))\<rparr>"

text \<open>The rows of the frame, top to bottom: row \<open>i\<close> holds cell \<open>i\<close> of every column (the
  index is not part of a row).\<close>

definition rows_of :: "'v table \<Rightarrow> 'v option list list" where
  "rows_of d = map (\<lambda>i. map (\<lambda>c. cells c ! i) (columns d)) [0..<nrows d]"

text \<open>
  \<open>df.duplicated()\<close> (\<open>keep='first'\<close>): a row is marked when an equal row stands above
  it; null cells compare equal to each other. \<open>.sum()\<close> of a boolean series counts its
  \<open>True\<close> entries.
\<close>

fun duplicated_from :: "'a list \<Rightarrow> 'a list \<Rightarrow> bool list" where
  "duplicated_from seen [] = []"
| "duplicated_from seen (r # rs) = (r \<in> set seen) # duplicated_from (r # seen) rs"

definition duplicated :: "'v table \<Rightarrow> bool list" where
  "duplicated d = duplicated_from [] (rows_of d)"

definition sum_bool :: "bool list \<Rightarrow> nat" where
  "sum_bool bs = sum_list (map of_bool bs)"

text \<open>\<open>df.nunique()\<close>: the number of distinct non-null values of a column.\<close>

definition nunique :: "'v column \<Rightarrow> nat" where
  "nunique c = length (remdups (List.map_filter id (cells c)))"

definition dtype_df :: "'v table \<Rightarrow> (string \<times> dtype \<times> nat) list" where
  "dtype_df d = map (\<lambda>c. (name c, dtype c, nunique c)) (columns d)"

text \<open>
  The missing-value frame:
  \<^verbatim>\<open>"Missing Count": df.isnull().sum(), "Missing %": (df.isnull().mean() * 100).round(2)\<close>

  The percentage is computed in float64. A float64 result is \<open>NaN\<close> or a number, and the
  number is the rational it stands for; every arithmetic operation returns the exact
  result rounded to the nearest number with a 53-bit significand, ties to the even
  significand (\<open>fl\<close>). \<open>binade x\<close> is the exponent \<open>e\<close> with \<open>2\<^sup>e \<le> x < 2\<^sup>e\<^sup>+\<^sup>1\<close>. Overflow and
  subnormal numbers are not modelled: the numbers of this computation lie between
  \<open>1 / rows\<close> and \<open>10000\<close>.

  \<^item> The mean of a boolean series is the sum of its entries divided by its length, both
    as float64 (whole numbers below \<open>2\<^sup>5\<^sup>3\<close>, which float64 holds exactly), and \<open>NaN\<close> for an
    empty series (\<open>0/0\<close>).
  \<^item> \<open>* 100\<close> is one float64 multiplication.
  \<^item> \<open>round(2)\<close> is numpy's: multiply by \<open>10\<^sup>2\<close>, round to the nearest integer with ties to
    the even one (\<open>rint\<close>), divide by \<open>10\<^sup>2\<close>.
\<close>

datatype pyfloat = NaN | Fl rat

definition rint :: "rat \<Rightarrow> int" where
  "rint x = (let f = \<lfloor>x\<rfloor>; r = x - of_int f in
             if r < 1 / 2 then f else if 1 / 2 < r then f + 1
             else if even f then f else f + 1)"

definition binade :: "rat \<Rightarrow> int" where
  "binade x = (case quotient_of x of (p, q) \<Rightarrow>
                 (let e = bitlen p - bitlen q in if 2 powi e \<le> x then e else e - 1))"

definition fl :: "rat \<Rightarrow> rat" where
  "fl x = (if x = 0 then 0
           else (let u = 2 powi (binade \<bar>x\<bar> - 52)
                 in sgn x * (of_int (rint (\<bar>x\<bar> / u)) * u)))"

definition isnull :: "'v column \<Rightarrow> bool list" where
  "isnull c = map Option.is_none (cells c)"

definition mean_bool :: "bool list \<Rightarrow> pyfloat" where
  "mean_bool bs =
     (if bs = [] then NaN else Fl (fl (of_nat (sum_bool bs) / of_nat (length bs))))"

definition fmul :: "pyfloat \<Rightarrow> rat \<Rightarrow> pyfloat" where
  "fmul x k = (case x of NaN \<Rightarrow> NaN | Fl r \<Rightarrow> Fl (fl (r * k)))"

definition fround :: "nat \<Rightarrow> pyfloat \<Rightarrow> pyfloat" where
  "fround k x =
     (case x of NaN \<Rightarrow> NaN
      | Fl r \<Rightarrow> Fl (fl (of_int (rint (fl (r * 10 ^ k))) / 10 ^ k)))"

definition missing_count :: "'v column \<Rightarrow> nat" where
  "missing_count c = sum_bool (isnull c)"

definition missing_pct :: "'v column \<Rightarrow> pyfloat" where
  "missing_pct c = fround 2 (fmul (mean_bool (isnull c)) 100)"

definition missing_df :: "'v table \<Rightarrow> (string \<times> nat \<times> pyfloat) list" where
  "missing_df d = map (\<lambda>c. (name c, missing_count c, missing_pct c)) (columns d)"

section \<open>The page\<close>

text \<open>
  What the script puts on the page, in order. The emoji that open some captions are left
  out of the strings; chart titles and axis labels, which are formatted from the same
  column names as the data arguments, are left out of the chart calls; \<open>st.columns\<close> only
  lays elements out and is not recorded.
\<close>

datatype exn = Exn string

fun str_of :: "exn \<Rightarrow> string" where
  "str_of (Exn m) = m"

datatype ('v, 'agg, 'fig) element =
    Title string
  | Markdown string
  | FileUploader string
  | Success string
  | Subheader string
  | Info string
  | Warning string
  | Error string
  | Metric string nat
  | DataFrame "'v table"
  | DtypeFrame "(string \<times> dtype \<times> nat) list"
  | MissingFrame "(string \<times> nat \<times> pyfloat) list"
  | StatsFrame 'agg
  | WriteText string
  | WriteList "string list"
  | Selectbox string "string list"
  | PlotlyChart 'fig
  | Pyplot 'fig
  | DownloadButton string string string string

text \<open>
  The library calls whose results the script only passes on are parameters: each returns
  its value or raises. \<open>'agg\<close> is a derived frame (value counts, group sums, a correlation
  matrix, summary statistics), \<open>'fig\<close> a figure.
  \<^item> \<open>value_counts d c\<close> is \<open>d[c].value_counts().reset_index()\<close>, a new frame;
  \<^item> \<open>set_columns a ls\<close> is \<open>a\<close> after \<open>a.columns = ls\<close>;
  \<^item> \<open>groupby_sum d x y\<close> is \<open>d.groupby(x)[y].sum().reset_index()\<close>;
  \<^item> \<open>px_bar a x y color horizontal\<close>, \<open>px_pie a names values donut\<close>;
  \<^item> \<open>corr d cs\<close> is \<open>d[cs].corr()\<close>, \<open>describe d cs\<close> is \<open>d[cs].describe()\<close>;
  \<^item> \<open>sns_heatmap c\<close> is the figure of \<open>plt.subplots\<close> after \<open>sns.heatmap\<close> has drawn on it;
  \<^item> \<open>to_csv d\<close> is \<open>d.to_csv(index=False).encode("utf-8")\<close>.
\<close>

record ('v, 'agg, 'fig) lib =
  read_csv :: "string \<Rightarrow> exn + 'v table"
  describe :: "'v table \<Rightarrow> string list \<Rightarrow> exn + 'agg"
  px_histogram :: "'v table \<Rightarrow> string option \<Rightarrow> exn + 'fig"
  value_counts :: "'v table \<Rightarrow> string option \<Rightarrow> exn + 'agg"
  set_columns :: "'agg \<Rightarrow> string option list \<Rightarrow> exn + 'agg"
  px_bar :: "'agg \<Rightarrow> string option \<Rightarrow> string option \<Rightarrow> string option \<Rightarrow> bool \<Rightarrow> exn + 'fig"
  groupby_sum :: "'v table \<Rightarrow> string option \<Rightarrow> string option \<Rightarrow> exn + 'agg"
  px_pie :: "'agg \<Rightarrow> string option \<Rightarrow> string option \<Rightarrow> bool \<Rightarrow> exn + 'fig"
  corr :: "'v table \<Rightarrow> string list \<Rightarrow> exn + 'agg"
  sns_heatmap :: "'agg \<Rightarrow> exn + 'fig"
  px_box :: "'v table \<Rightarrow> string option \<Rightarrow> exn + 'fig"
  to_csv :: "'v table \<Rightarrow> exn + string"

text \<open>
  The state of a render pass: the objects the script holds and may assign to (\<open>df\<close>, the
  two column lists, and \<open>cat_data\<close> and \<open>count_data\<close>, whose \<open>columns\<close> it sets), the
  page so far, and the exception in flight, if any. A name is \<open>None\<close> until it is bound;
  results that are bound once and only read are bound by \<open>\<lambda>\<close>.
\<close>

record ('v, 'agg, 'fig) state =
  df :: "'v table"
  categorical_cols :: "string list"
  numeric_cols :: "string list"
  cat_data :: "'agg option"
  count_data :: "'agg option"
  shown :: "('v, 'agg, 'fig) element list"
  fault :: "exn option"

type_synonym ('v, 'agg, 'fig) stmt = "('v, 'agg, 'fig) state \<Rightarrow> ('v, 'agg, 'fig) state"

definition st_show :: "('v, 'agg, 'fig) element \<Rightarrow> ('v, 'agg, 'fig) stmt" where
  "st_show e s = s\<lparr>shown := shown s @ [e]\<rparr>"

definition raise :: "exn \<Rightarrow> ('v, 'agg, 'fig) stmt" where
  "raise e s = s\<lparr>fault := Some e\<rparr>"

text \<open>A statement runs only while no exception is in flight; a block runs its statements
  in order.\<close>

definition exec :: "('v, 'agg, 'fig) stmt \<Rightarrow> ('v, 'agg, 'fig) stmt" where
  "exec f s = (case fault s of None \<Rightarrow> f s | Some e \<Rightarrow> s)"

definition block :: "('v, 'agg, 'fig) stmt list \<Rightarrow> ('v, 'agg, 'fig) stmt" where
  "block fs s = fold exec fs s"

text \<open>A library call: the exception it raises, or the rest of the statement on its value.\<close>

definition call :: "exn + 'a \<Rightarrow> ('a \<Rightarrow> ('v, 'agg, 'fig) stmt) \<Rightarrow> ('v, 'agg, 'fig) stmt" where
  "call r k s = (case r of Inl e \<Rightarrow> raise e s | Inr x \<Rightarrow> k x s)"

text \<open>Reading a name: \<open>NameError\<close> while it is unbound.\<close>

definition load :: "'a option \<Rightarrow> ('a \<Rightarrow> ('v, 'agg, 'fig) stmt) \<Rightarrow> ('v, 'agg, 'fig) stmt" where
  "load v k s = (case v of None \<Rightarrow> raise (Exn ''NameError'') s | Some x \<Rightarrow> k x s)"

text \<open>\<^verbatim>\<open>try: body except Exception as e: handler\<close>: what the body put on the page stays.\<close>

definition try_except ::
  "('v, 'agg, 'fig) stmt \<Rightarrow> (exn \<Rightarrow> ('v, 'agg, 'fig) stmt) \<Rightarrow> ('v, 'agg, 'fig) stmt" where
  "try_except body handler s =
     (let s' = body s in
      case fault s' of None \<Rightarrow> s' | Some e \<Rightarrow> handler e (s'\<lparr>fault := None\<rparr>))"

text \<open>
  The widget state is the index chosen in each select box, by key (by label where the
  script gives no key); an index that is out of range selects the first option, and a
  select box without options returns \<open>None\<close>.
\<close>

type_synonym widgets = "string \<Rightarrow> nat"

definition selectbox :: "widgets \<Rightarrow> string \<Rightarrow> string list \<Rightarrow> string option" where
  "selectbox w key opts =
     (case opts of [] \<Rightarrow> None
      | x # _ \<Rightarrow> Some (if w key < length opts then opts ! w key else x))"

subsection \<open>The stages of the script\<close>

text \<open>Lines 31-32.\<close>

definition dataset_preview :: "('v, 'agg, 'fig) stmt" where
  "dataset_preview =
     block [st_show (Subheader ''Dataset Preview''),
            (\<lambda>s. st_show (DataFrame (head_df (df s))) s)]"

text \<open>Lines 37-42.\<close>

definition dataset_info :: "('v, 'agg, 'fig) stmt" where
  "dataset_info =
     block [st_show (Subheader ''Dataset Information''),
            (\<lambda>s. st_show (Metric ''Rows'' (fst (shape (df s)))) s),
            (\<lambda>s. st_show (Metric ''Columns'' (snd (shape (df s)))) s),
            (\<lambda>s. st_show (Metric ''Duplicate Rows'' (sum_bool (duplicated (df s)))) s)]"

text \<open>Lines 47-53.\<close>

definition data_types :: "('v, 'agg, 'fig) stmt" where
  "data_types =
     block [st_show (Subheader ''Column Data Types''),
            (\<lambda>s. st_show (DtypeFrame (dtype_df (df s))) s)]"

text \<open>Lines 58-66.\<close>

definition classification :: "('v, 'agg, 'fig) stmt" where
  "classification =
     block [(\<lambda>s. s\<lparr>categorical_cols := categorical_cols_of (df s)\<rparr>),
            (\<lambda>s. s\<lparr>numeric_cols := numeric_cols_of (df s)\<rparr>),
            st_show (Subheader ''Column Classification''),
            st_show (WriteText ''**Categorical Columns**''),
            (\<lambda>s. st_show (WriteList (categorical_cols s)) s),
            st_show (WriteText ''**Numerical Columns**''),
            (\<lambda>s. st_show (WriteList (numeric_cols s)) s)]"

text \<open>Lines 71-77.\<close>

definition missing_values :: "('v, 'agg, 'fig) stmt" where
  "missing_values =
     block [st_show (Subheader ''Missing Value Analysis''),
            (\<lambda>s. st_show (MissingFrame (missing_df (df s))) s)]"

text \<open>Lines 82-86.\<close>

definition descriptive_statistics :: "('v, 'agg, 'fig) lib \<Rightarrow> ('v, 'agg, 'fig) stmt" where
  "descriptive_statistics L =
     block [st_show (Subheader ''Descriptive Statistics''),
            (\<lambda>s. if numeric_cols s \<noteq> []
                 then call (describe L (df s) (numeric_cols s)) (\<lambda>a. st_show (StatsFrame a)) s
                 else st_show (Info ''No numeric columns found'') s)]"

text \<open>Lines 93-96: the histogram.\<close>

definition histogram :: "('v, 'agg, 'fig) lib \<Rightarrow> widgets \<Rightarrow> ('v, 'agg, 'fig) stmt" where
  "histogram L w s =
     (if numeric_cols s \<noteq> [] then
        (let num_col = selectbox w ''Select Numeric Column'' (numeric_cols s) in
         block [st_show (Selectbox ''Select Numeric Column'' (numeric_cols s)),
                (\<lambda>s. call (px_histogram L (df s) num_col) (\<lambda>fig. st_show (PlotlyChart fig)) s)] s)
      else s)"

text \<open>Lines 98-105: the value-count bar chart. Line 101 assigns to \<open>cat_data.columns\<close>.\<close>

definition value_count_bar :: "('v, 'agg, 'fig) lib \<Rightarrow> widgets \<Rightarrow> ('v, 'agg, 'fig) stmt" where
  "value_count_bar L w s =
     (if categorical_cols s \<noteq> [] then
        (let cat_col = selectbox w ''Select Categorical Column'' (categorical_cols s) in
         block [st_show (Selectbox ''Select Categorical Column'' (categorical_cols s)),
                (\<lambda>s. call (value_counts L (df s) cat_col) (\<lambda>a s. s\<lparr>cat_data := Some a\<rparr>) s),
                (\<lambda>s. load (cat_data s) (\<lambda>a. call (set_columns L a [cat_col, Some ''Count''])
                                              (\<lambda>a' s. s\<lparr>cat_data := Some a'\<rparr>)) s),
                (\<lambda>s. load (cat_data s) (\<lambda>a. call (px_bar L a cat_col (Some ''Count'') None False)
                                              (\<lambda>fig. st_show (PlotlyChart fig))) s)] s)
      else s)"

definition univariate_analysis :: "('v, 'agg, 'fig) lib \<Rightarrow> widgets \<Rightarrow> ('v, 'agg, 'fig) stmt" where
  "univariate_analysis L w =
     block [st_show (Subheader ''Univariate Analysis''), histogram L w, value_count_bar L w]"

text \<open>Lines 110-141: the dynamic bar chart, inside \<open>try\<close>.\<close>

definition dynamic_bar_body :: "('v, 'agg, 'fig) lib \<Rightarrow> widgets \<Rightarrow> ('v, 'agg, 'fig) stmt" where
  "dynamic_bar_body L w s =
     (if length (categorical_cols s) > 0 \<and> length (numeric_cols s) > 0 then
        (let x_col = selectbox w ''bar_x'' (categorical_cols s);
             y_col = selectbox w ''bar_y'' (numeric_cols s);
             chart_type = selectbox w ''bar_type'' [''Vertical Bar'', ''Horizontal Bar''] in
         block [st_show (Selectbox ''X-axis (Categorical)'' (categorical_cols s)),
                st_show (Selectbox ''Y-axis (Numeric)'' (numeric_cols s)),
                st_show (Selectbox ''Chart Type'' [''Vertical Bar'', ''Horizontal Bar'']),
                (\<lambda>s. call (groupby_sum L (df s) x_col y_col)
                   (\<lambda>bar_data.
                      call (if chart_type = Some ''Vertical Bar''
                            then px_bar L bar_data x_col y_col y_col False
                            else px_bar L bar_data y_col x_col y_col True)
                        (\<lambda>fig. st_show (PlotlyChart fig))) s)] s)
      else st_show (Warning ''Need both categorical and numeric columns for bar chart'') s)"

definition dynamic_bar :: "('v, 'agg, 'fig) lib \<Rightarrow> widgets \<Rightarrow> ('v, 'agg, 'fig) stmt" where
  "dynamic_bar L w =
     block [st_show (Subheader ''Dynamic Bar Chart''),
            try_except (dynamic_bar_body L w)
              (\<lambda>e. st_show (Error (''Error creating bar chart: '' @ str_of e)))]"

text \<open>Lines 146-172: the dynamic pie or donut chart, inside \<open>try\<close>.\<close>

definition dynamic_pie_body :: "('v, 'agg, 'fig) lib \<Rightarrow> widgets \<Rightarrow> ('v, 'agg, 'fig) stmt" where
  "dynamic_pie_body L w s =
     (if length (categorical_cols s) > 0 \<and> length (numeric_cols s) > 0 then
        (let pie_cat = selectbox w ''pie_cat'' (categorical_cols s);
             pie_num = selectbox w ''pie_num'' (numeric_cols s);
             pie_chart_type = selectbox w ''pie_type'' [''Pie Chart'', ''Donut Chart''] in
         block [st_show (Selectbox ''Category'' (categorical_cols s)),
                st_show (Selectbox ''Value'' (numeric_cols s)),
                st_show (Selectbox ''Chart Type'' [''Pie Chart'', ''Donut Chart'']),
                (\<lambda>s. call (groupby_sum L (df s) pie_cat pie_num)
                   (\<lambda>pie_data.
                      call (if pie_chart_type = Some ''Pie Chart''
                            then px_pie L pie_data pie_cat pie_num False
                            else px_pie L pie_data pie_cat pie_num True)
                        (\<lambda>fig. st_show (PlotlyChart fig))) s)] s)
      else st_show (Warning ''Need both categorical and numeric columns for pie chart'') s)"

definition dynamic_pie :: "('v, 'agg, 'fig) lib \<Rightarrow> widgets \<Rightarrow> ('v, 'agg, 'fig) stmt" where
  "dynamic_pie L w =
     block [st_show (Subheader ''Dynamic Pie Chart''),
            try_except (dynamic_pie_body L w)
              (\<lambda>e. st_show (Error (''Error creating pie chart: '' @ str_of e)))]"

text \<open>Lines 177-191: the category distribution pie, inside \<open>try\<close>. Line 183 assigns to
  \<open>count_data.columns\<close>.\<close>

definition distribution_pie_body :: "('v, 'agg, 'fig) lib \<Rightarrow> widgets \<Rightarrow> ('v, 'agg, 'fig) stmt" where
  "distribution_pie_body L w s =
     (if length (categorical_cols s) > 0 then
        (let count_cat = selectbox w ''count_pie_cat'' (categorical_cols s) in
         block [st_show (Selectbox ''Select Category to Visualize'' (categorical_cols s)),
                (\<lambda>s. call (value_counts L (df s) count_cat) (\<lambda>a s. s\<lparr>count_data := Some a\<rparr>) s),
                (\<lambda>s. load (count_data s) (\<lambda>a. call (set_columns L a [count_cat, Some ''Count''])
                                                (\<lambda>a' s. s\<lparr>count_data := Some a'\<rparr>)) s),
                (\<lambda>s. load (count_data s) (\<lambda>a. call (px_pie L a count_cat (Some ''Count'') False)
                                                (\<lambda>fig. st_show (PlotlyChart fig))) s)] s)
      else st_show (Warning ''No categorical columns available for distribution chart'') s)"

definition distribution_pie :: "('v, 'agg, 'fig) lib \<Rightarrow> widgets \<Rightarrow> ('v, 'agg, 'fig) stmt" where
  "distribution_pie L w =
     block [st_show (Subheader ''Category Distribution Pie Chart''),
            try_except (distribution_pie_body L w)
              (\<lambda>e. st_show (Error (''Error creating distribution chart: '' @ str_of e)))]"

text \<open>Lines 196-204: the correlation heatmap.\<close>

definition correlation_heatmap :: "('v, 'agg, 'fig) lib \<Rightarrow> ('v, 'agg, 'fig) stmt" where
  "correlation_heatmap L =
     block [st_show (Subheader ''Correlation Heatmap''),
            (\<lambda>s. if length (numeric_cols s) > 1
                 then call (corr L (df s) (numeric_cols s))
                        (\<lambda>c. call (sns_heatmap L c) (\<lambda>fig. st_show (Pyplot fig))) s
                 else st_show (Info ''Not enough numeric columns for correlation'') s)]"

text \<open>Lines 209-214: the box plot.\<close>

definition outlier_detection :: "('v, 'agg, 'fig) lib \<Rightarrow> widgets \<Rightarrow> ('v, 'agg, 'fig) stmt" where
  "outlier_detection L w =
     block [st_show (Subheader ''Outlier Detection''),
            (\<lambda>s. if numeric_cols s \<noteq> [] then
                   (let out_col = selectbox w ''Select Column for Outlier Analysis'' (numeric_cols s) in
                    block [st_show (Selectbox ''Select Column for Outlier Analysis'' (numeric_cols s)),
                           (\<lambda>s. call (px_box L (df s) out_col)
                                  (\<lambda>fig. st_show (PlotlyChart fig)) s)] s)
                 else s)]"

text \<open>Lines 219-226.\<close>

definition download :: "('v, 'agg, 'fig) lib \<Rightarrow> ('v, 'agg, 'fig) stmt" where
  "download L =
     block [st_show (Subheader ''Download Dataset''),
            (\<lambda>s. call (to_csv L (df s))
                   (\<lambda>csv. st_show (DownloadButton ''Download CSV'' csv
                                     ''cleaned_dataset.csv'' ''text/csv'')) s)]"

subsection \<open>The script\<close>

text \<open>Lines 11-22, before the upload is looked at.\<close>

definition preamble :: "('v, 'agg, 'fig) element list" where
  "preamble =
     [Title ''Universal Data Analyzer using EDA'',
      Markdown ''Upload **any CSV dataset** to perform complete Exploratory Data Analysis'',
      FileUploader ''Upload CSV File'']"

text \<open>The state right after line 25 has bound \<open>df\<close>.\<close>

definition loaded :: "'v table \<Rightarrow> ('v, 'agg, 'fig) state" where
  "loaded d = \<lparr>df = d, categorical_cols = [], numeric_cols = [], cat_data = None,
              count_data = None, shown = preamble, fault = None\<rparr>"

text \<open>Lines 26-226.\<close>

definition stages :: "('v, 'agg, 'fig) lib \<Rightarrow> widgets \<Rightarrow> ('v, 'agg, 'fig) stmt list" where
  "stages L w =
     [st_show (Success ''Dataset Loaded Successfully''),
      dataset_preview, dataset_info, data_types, classification, missing_values,
      descriptive_statistics L, univariate_analysis L w,
      dynamic_bar L w, dynamic_pie L w, distribution_pie L w,
      correlation_heatmap L, outlier_detection L w, download L]"

definition analysis :: "('v, 'agg, 'fig) lib \<Rightarrow> widgets \<Rightarrow> ('v, 'agg, 'fig) stmt" where
  "analysis L w = block (stages L w)"

text \<open>
  One run of the script: what is on the page at its end, the exception that ended it if
  one did, and the table \<open>df\<close> is bound to at that point. \<open>uploaded_file\<close> is \<open>None\<close> or
  the bytes of the upload.
\<close>

record ('v, 'agg, 'fig) run =
  page :: "('v, 'agg, 'fig) element list"
  unhandled :: "exn option"
  held :: "'v table option"

definition script ::
  "('v, 'agg, 'fig) lib \<Rightarrow> widgets \<Rightarrow> string option \<Rightarrow> ('v, 'agg, 'fig) run" where
  "script L w uploaded_file =
     (case uploaded_file of
        None \<Rightarrow> \<lparr>page = preamble @ [Info ''Upload a CSV file to start EDA''],
                 unhandled = None, held = None\<rparr>
      | Some bytes \<Rightarrow>
          (case read_csv L bytes of
             Inl e \<Rightarrow> \<lparr>page = preamble, unhandled = Some e, held = None\<rparr>
           | Inr d \<Rightarrow>
               (let s = analysis L w (loaded d)
                in \<lparr>page = shown s, unhandled = fault s, held = Some (df s)\<rparr>)))"

subsection \<open>Vocabulary of the properties\<close>

text \<open>
  \<open>follows Q s t\<close>: from \<open>s\<close> to \<open>t\<close> the table and the two column lists are the same, and
  the page has grown by elements that all satisfy \<open>Q\<close>.
\<close>

definition follows ::
  "(('v, 'agg, 'fig) element \<Rightarrow> bool) \<Rightarrow> ('v, 'agg, 'fig) state \<Rightarrow> ('v, 'agg, 'fig) state \<Rightarrow> bool"
  where
  "follows Q s t \<longleftrightarrow>
     df t = df s \<and> categorical_cols t = categorical_cols s \<and> numeric_cols t = numeric_cols s \<and>
     (\<exists>es. shown t = shown s @ es \<and> list_all Q es)"

text \<open>The state after the stages that call no fallible library function (lines 26-77).\<close>

definition profiled :: "'v table \<Rightarrow> ('v, 'agg, 'fig) state" where
  "profiled d =
     \<lparr>df = d, categorical_cols = categorical_cols_of d, numeric_cols = numeric_cols_of d,
      cat_data = None, count_data = None,
      shown = preamble @
        [Success ''Dataset Loaded Successfully'',
         Subheader ''Dataset Preview'', DataFrame (head_df d),
         Subheader ''Dataset Information'',
         Metric ''Rows'' (nrows d), Metric ''Columns'' (length (columns d)),
         Metric ''Duplicate Rows'' (sum_bool (duplicated d)),
         Subheader ''Column Data Types'', DtypeFrame (dtype_df d),
         Subheader ''Column Classification'',
         WriteText ''**Categorical Columns**'', WriteList (categorical_cols_of d),
         WriteText ''**Numerical Columns**'', WriteList (numeric_cols_of d),
         Subheader ''Missing Value Analysis'', MissingFrame (missing_df d)],
      fault = None\<rparr>"

text \<open>Kinds of page elements.\<close>

definition metric_named :: "string \<Rightarrow> ('v, 'agg, 'fig) element \<Rightarrow> bool" where
  "metric_named l e = (case e of Metric l' n \<Rightarrow> l' = l | _ \<Rightarrow> False)"

definition is_missing_frame :: "('v, 'agg, 'fig) element \<Rightarrow> bool" where
  "is_missing_frame e = (case e of MissingFrame rows \<Rightarrow> True | _ \<Rightarrow> False)"

definition is_error :: "('v, 'agg, 'fig) element \<Rightarrow> bool" where
  "is_error e = (case e of Error m \<Rightarrow> True | _ \<Rightarrow> False)"

definition is_warning :: "('v, 'agg, 'fig) element \<Rightarrow> bool" where
  "is_warning e = (case e of Warning m \<Rightarrow> True | _ \<Rightarrow> False)"

definition is_alert :: "('v, 'agg, 'fig) element \<Rightarrow> bool" where
  "is_alert e \<longleftrightarrow> is_warning e \<or> is_error e"


text \<open>
  The missing percentage as the specification words it: null entries over rows, times
  100, rounded to two decimal places, as the float64 that stands for that decimal. The
  rounding is to the nearest hundredth, ties to the even one, the rule numpy documents
  for \<open>round\<close>. Over no rows the quotient is \<open>0/0\<close>, which float64 makes \<open>NaN\<close>.
\<close>

definition spec_null_count :: "'v column \<Rightarrow> nat" where
  "spec_null_count c = length (filter Option.is_none (cells c))"

definition spec_round2 :: "rat \<Rightarrow> rat" where
  "spec_round2 x = of_int (rint (x * 100)) / 100"

definition spec_missing_pct :: "nat \<Rightarrow> nat \<Rightarrow> pyfloat" where
  "spec_missing_pct nulls rows =
     (if rows = 0 then NaN else Fl (fl (spec_round2 (of_nat nulls / of_nat rows * 100))))"



text \<open>
  An upload and library behaviours to run the script on: a CSV text of three rows with a
  text column, an integer column, a float column and a bool column, and the frame
  \<open>read_csv\<close> makes of it (cells kept as their text). On any other upload this \<open>read_csv\<close>
  raises, as pandas does on an empty file; every other call succeeds. The two variants
  raise in \<open>px.histogram\<close> and in the \<open>groupby\<close> sum.
\<close>

definition demo_csv :: string where
  "demo_csv = ''city,age,score,member'' @ [CHR 0x0A] @ ''Pune,31,1.5,True'' @ [CHR 0x0A] @
              '',40,2.5,False'' @ [CHR 0x0A] @ ''Pune,31,1.5,True'' @ [CHR 0x0A]"

definition demo_table :: "string table" where
  "demo_table =
     \<lparr>columns =
        [\<lparr>name = ''city'', dtype = Object, cells = [Some ''Pune'', None, Some ''Pune'']\<rparr>,
         \<lparr>name = ''age'', dtype = Int64, cells = [Some ''31'', Some ''40'', Some ''31'']\<rparr>,
         \<lparr>name = ''score'', dtype = Float64, cells = [Some ''1.5'', Some ''2.5'', Some ''1.5'']\<rparr>,
         \<lparr>name = ''member'', dtype = Bool, cells = [Some ''True'', Some ''False'', Some ''True'']\<rparr>],
      nrows = 3, index = RangeIndex\<rparr>"

definition demo_lib :: "(string, unit, unit) lib" where
  "demo_lib =
     \<lparr>read_csv = (\<lambda>b. if b = demo_csv then Inr demo_table
                       else Inl (Exn ''No columns to parse from file'')),
      describe = (\<lambda>d cs. Inr ()),
      px_histogram = (\<lambda>d c. Inr ()),
      value_counts = (\<lambda>d c. Inr ()),
      set_columns = (\<lambda>a ls. Inr ()),
      px_bar = (\<lambda>a x y c h. Inr ()),
      groupby_sum = (\<lambda>d x y. Inr ()),
      px_pie = (\<lambda>a n v h. Inr ()),
      corr = (\<lambda>d cs. Inr ()),
      sns_heatmap = (\<lambda>a. Inr ()),
      px_box = (\<lambda>d c. Inr ()),
      to_csv = (\<lambda>d. Inr demo_csv)\<rparr>"

definition histogram_raises :: "(string, unit, unit) lib" where
  "histogram_raises = demo_lib\<lparr>px_histogram := (\<lambda>d c. Inl (Exn ''boom''))\<rparr>"

definition groupby_raises :: "(string, unit, unit) lib" where
  "groupby_raises = demo_lib\<lparr>groupby_sum := (\<lambda>d x y. Inl (Exn ''boom''))\<rparr>"






text \<open>An upload of 160 rows of which 23 have no \<open>x\<close>, so that the exact percentage, 14.375,
  lies halfway between two hundredths.\<close>

definition ties_csv :: string where
  "ties_csv = ''x,y'' @ [CHR 0x0A] @ concat (replicate 23 ('',1'' @ [CHR 0x0A])) @
              concat (replicate 137 (''2.5,1'' @ [CHR 0x0A]))"

definition ties_table :: "string table" where
  "ties_table =
     \<lparr>columns =
        [\<lparr>name = ''x'', dtype = Float64,
          cells = replicate 23 None @ replicate 137 (Some ''2.5'')\<rparr>,
         \<lparr>name = ''y'', dtype = Int64, cells = replicate 160 (Some ''1'')\<rparr>],
      nrows = 160, index = RangeIndex\<rparr>"

definition ties_lib :: "(string, unit, unit) lib" where
  "ties_lib =
     demo_lib\<lparr>read_csv := (\<lambda>b. if b = ties_csv then Inr ties_table
                                else Inl (Exn ''No columns to parse from file'')),
              to_csv := (\<lambda>d. Inr ties_csv)\<rparr>"






definition first_options :: widgets where
  "first_options = (\<lambda>key. 0)"

section \<open>Column classification\<close>

lemma categorical_cols_of_set:
  "set (categorical_cols_of d) =
     name ` {c. c \<in> set (columns d) \<and> (dtype c = Object \<or> dtype c = Category)}"
  by (auto simp: categorical_cols_of_def columns_tolist_def select_dtypes_def)

lemma numeric_cols_of_set:
  "set (numeric_cols_of d) =
     name ` {c. c \<in> set (columns d) \<and> (dtype c = Int64 \<or> dtype c = UInt64 \<or> dtype c = Float64)}"
  by (auto simp: numeric_cols_of_def columns_tolist_def select_dtypes_def np_number_def)

lemma distinct_names_inj:
  assumes "distinct (map name cs)" "a \<in> set cs" "b \<in> set cs" "name a = name b"
  shows "a = b"
  using assms by (meson distinct_map inj_onD)

text \<open>
  C2 (amended). The two lists are disjoint, and together they hold exactly the columns
  whose dtype is object, category or a number; a column of another dtype (a bool column,
  which \<open>read_csv\<close> infers from True/False cells) is in neither list.
\<close>

theorem classification_disjoint_partial_cover:
  assumes "distinct (map name (columns d))"
  shows "set (categorical_cols_of d) \<inter> set (numeric_cols_of d) = {} \<and>
         set (categorical_cols_of d) \<union> set (numeric_cols_of d) =
           name ` {c. c \<in> set (columns d) \<and> dtype c \<noteq> Bool \<and> dtype c \<noteq> Datetime64}"
proof
  show "set (categorical_cols_of d) \<inter> set (numeric_cols_of d) = {}"
  proof (rule ccontr)
    assume "set (categorical_cols_of d) \<inter> set (numeric_cols_of d) \<noteq> {}"
    then obtain a b where ab: "a \<in> set (columns d)" "b \<in> set (columns d)" "name a = name b"
      "dtype a = Object \<or> dtype a = Category"
      "dtype b = Int64 \<or> dtype b = UInt64 \<or> dtype b = Float64"
      unfolding categorical_cols_of_set numeric_cols_of_set by auto
    then have "a = b" using assms distinct_names_inj by blast
    with ab show False by auto
  qed
next
  have "\<And>t. (t \<noteq> Bool \<and> t \<noteq> Datetime64) =
     ((t = Object \<or> t = Category) \<or> (t = Int64 \<or> t = UInt64 \<or> t = Float64))"
    by (case_tac t) auto
  then show "set (categorical_cols_of d) \<union> set (numeric_cols_of d) =
      name ` {c. c \<in> set (columns d) \<and> dtype c \<noteq> Bool \<and> dtype c \<noteq> Datetime64}"
    unfolding categorical_cols_of_set numeric_cols_of_set by auto
qed

theorem classification_disjoint_partial_cover_witness:
  "distinct (map name (columns \<lparr>columns =
       [\<lparr>name = ''city'', dtype = Object, cells = [Some (1::nat)]\<rparr>,
        \<lparr>name = ''age'', dtype = Int64, cells = [Some 2]\<rparr>,
        \<lparr>name = ''member'', dtype = Bool, cells = [Some 3]\<rparr>], nrows = 1, index = RangeIndex\<rparr>)) \<and>
   set (categorical_cols_of \<lparr>columns =
       [\<lparr>name = ''city'', dtype = Object, cells = [Some (1::nat)]\<rparr>,
        \<lparr>name = ''age'', dtype = Int64, cells = [Some 2]\<rparr>,
        \<lparr>name = ''member'', dtype = Bool, cells = [Some 3]\<rparr>], nrows = 1, index = RangeIndex\<rparr>) \<inter>
   set (numeric_cols_of \<lparr>columns =
       [\<lparr>name = ''city'', dtype = Object, cells = [Some (1::nat)]\<rparr>,
        \<lparr>name = ''age'', dtype = Int64, cells = [Some 2]\<rparr>,
        \<lparr>name = ''member'', dtype = Bool, cells = [Some 3]\<rparr>], nrows = 1, index = RangeIndex\<rparr>) = {}"
proof -
  have h: "distinct (map name (columns \<lparr>columns =
       [\<lparr>name = ''city'', dtype = Object, cells = [Some (1::nat)]\<rparr>,
        \<lparr>name = ''age'', dtype = Int64, cells = [Some 2]\<rparr>,
        \<lparr>name = ''member'', dtype = Bool, cells = [Some 3]\<rparr>], nrows = 1, index = RangeIndex\<rparr>))"
    by simp
  from classification_disjoint_partial_cover [OF h] h show ?thesis by blast
qed

text \<open>C2 as stated fails: a one-column table whose column is bool has that column in
  neither list, so the two lists do not cover the columns.\<close>

theorem classification_cover_counterexample:
  "set (categorical_cols_of \<lparr>columns =
       [\<lparr>name = ''member'', dtype = Bool, cells = [Some True, Some False]\<rparr>], nrows = 2, index = RangeIndex\<rparr>) \<union>
   set (numeric_cols_of \<lparr>columns =
       [\<lparr>name = ''member'', dtype = Bool, cells = [Some True, Some False]\<rparr>], nrows = 2, index = RangeIndex\<rparr>)
   \<noteq> set (columns_tolist \<lparr>columns =
       [\<lparr>name = ''member'', dtype = Bool, cells = [Some True, Some False]\<rparr>], nrows = 2, index = RangeIndex\<rparr>)"
  by (simp add: categorical_cols_of_def numeric_cols_of_def columns_tolist_def
      select_dtypes_def np_number_def)


section \<open>Running statements\<close>


lemma exec_Some: "fault s = Some e \<Longrightarrow> exec f s = s"
  by (simp add: exec_def)

lemma block_Nil: "block [] s = s"
  by (simp add: block_def)

lemma block_Cons: "block (f # fs) s = block fs (exec f s)"
  by (simp add: block_def)

lemma block_append: "block (fs @ gs) s = block gs (block fs s)"
  by (simp add: block_def)

lemma block_fault: "fault s = Some e \<Longrightarrow> block fs s = s"
  by (induction fs) (simp_all add: block_Nil block_Cons exec_Some)

lemma block_no_fault: "fault (block fs s) = None \<Longrightarrow> fault s = None"
  by (cases "fault s") (simp_all add: block_fault)

lemma exec_no_fault: "fault (exec f s) = None \<Longrightarrow> fault s = None"
  by (cases "fault s") (simp_all add: exec_Some)

lemma filter_none: "list_all (\<lambda>e. \<not> P e) es \<Longrightarrow> filter P es = []"
  by (induction es) simp_all

section \<open>What the stages leave alone\<close>

lemma follows_refl: "follows Q s s"
  by (simp add: follows_def)

lemma follows_trans: "follows Q s t \<Longrightarrow> follows Q t u \<Longrightarrow> follows Q s u"
  by (auto simp: follows_def)

lemma follows_show: "Q e \<Longrightarrow> follows Q s (st_show e s)"
  by (simp add: follows_def st_show_def)

lemma follows_raise: "follows Q s (raise e s)"
  by (simp add: follows_def raise_def)

lemma follows_cat_data: "follows Q s (s\<lparr>cat_data := x\<rparr>)"
  by (simp add: follows_def)

lemma follows_count_data: "follows Q s (s\<lparr>count_data := x\<rparr>)"
  by (simp add: follows_def)

lemma follows_exec: "(\<And>s. follows Q s (f s)) \<Longrightarrow> follows Q s (exec f s)"
  by (simp add: exec_def follows_refl split: option.splits)

lemma follows_block: "list_all (\<lambda>f. \<forall>s. follows Q s (f s)) fs \<Longrightarrow> follows Q s (block fs s)"
proof (induction fs arbitrary: s)
  case Nil
  then show ?case by (simp add: block_Nil follows_refl)
next
  case (Cons f fs)
  then have "follows Q s (exec f s)" by (simp add: follows_exec)
  moreover from Cons have "follows Q (exec f s) (block fs (exec f s))" by simp
  ultimately show ?case unfolding block_Cons by (rule follows_trans)
qed

lemma follows_call: "(\<And>x. follows Q s (k x s)) \<Longrightarrow> follows Q s (call r k s)"
  by (simp add: call_def follows_raise split: sum.splits)

lemma follows_load: "(\<And>x. follows Q s (k x s)) \<Longrightarrow> follows Q s (load v k s)"
  by (simp add: load_def follows_raise split: option.splits)

lemma follows_try:
  assumes "\<And>s. follows Q s (b s)" "\<And>e s. follows Q s (h e s)"
  shows "follows Q s (try_except b h s)"
proof (cases "fault (b s)")
  case None
  then show ?thesis using assms(1) by (simp add: try_except_def)
next
  case (Some e)
  have "follows Q (b s) ((b s)\<lparr>fault := None\<rparr>)" by (simp add: follows_def)
  with assms(1) have "follows Q s ((b s)\<lparr>fault := None\<rparr>)" by (rule follows_trans)
  then have "follows Q s (h e ((b s)\<lparr>fault := None\<rparr>))" using assms(2) by (rule follows_trans)
  with Some show ?thesis by (simp add: try_except_def)
qed

lemmas follows_intros = follows_show follows_raise follows_cat_data follows_count_data
  follows_block follows_call follows_load follows_try follows_refl

lemma descriptive_statistics_follows:
  assumes "Q (Subheader ''Descriptive Statistics'')" "\<And>a. Q (StatsFrame a)"
    "Q (Info ''No numeric columns found'')"
  shows "follows Q s (descriptive_statistics L s)"
  unfolding descriptive_statistics_def
  by (simp add: follows_intros assms)

lemma histogram_follows:
  assumes "\<And>l os. Q (Selectbox l os)" "\<And>fig. Q (PlotlyChart fig)"
  shows "follows Q s (histogram L w s)"
  unfolding histogram_def
  by (simp add: follows_intros assms Let_def)

lemma value_count_bar_follows:
  assumes "\<And>l os. Q (Selectbox l os)" "\<And>fig. Q (PlotlyChart fig)"
  shows "follows Q s (value_count_bar L w s)"
  unfolding value_count_bar_def
  by (simp add: follows_intros assms Let_def)

lemma univariate_analysis_follows:
  assumes "Q (Subheader ''Univariate Analysis'')" "\<And>l os. Q (Selectbox l os)" "\<And>fig. Q (PlotlyChart fig)"
  shows "follows Q s (univariate_analysis L w s)"
  unfolding univariate_analysis_def
  by (simp add: follows_intros assms histogram_follows value_count_bar_follows)

lemma dynamic_bar_follows:
  assumes "Q (Subheader ''Dynamic Bar Chart'')" "\<And>l os. Q (Selectbox l os)" "\<And>fig. Q (PlotlyChart fig)"
    "Q (Warning ''Need both categorical and numeric columns for bar chart'')" "\<And>m. Q (Error m)"
  shows "follows Q s (dynamic_bar L w s)"
  unfolding dynamic_bar_def dynamic_bar_body_def
  by (simp add: follows_intros assms Let_def)

lemma dynamic_pie_follows:
  assumes "Q (Subheader ''Dynamic Pie Chart'')" "\<And>l os. Q (Selectbox l os)" "\<And>fig. Q (PlotlyChart fig)"
    "Q (Warning ''Need both categorical and numeric columns for pie chart'')" "\<And>m. Q (Error m)"
  shows "follows Q s (dynamic_pie L w s)"
  unfolding dynamic_pie_def dynamic_pie_body_def
  by (simp add: follows_intros assms Let_def)

lemma distribution_pie_follows:
  assumes "Q (Subheader ''Category Distribution Pie Chart'')" "\<And>l os. Q (Selectbox l os)" "\<And>fig. Q (PlotlyChart fig)"
    "Q (Warning ''No categorical columns available for distribution chart'')" "\<And>m. Q (Error m)"
  shows "follows Q s (distribution_pie L w s)"
  unfolding distribution_pie_def distribution_pie_body_def
  by (simp add: follows_intros assms Let_def)

lemma correlation_heatmap_follows:
  assumes "Q (Subheader ''Correlation Heatmap'')" "\<And>fig. Q (Pyplot fig)"
    "Q (Info ''Not enough numeric columns for correlation'')"
  shows "follows Q s (correlation_heatmap L s)"
  unfolding correlation_heatmap_def
  by (simp add: follows_intros assms Let_def)

lemma outlier_detection_follows:
  assumes "Q (Subheader ''Outlier Detection'')" "\<And>l os. Q (Selectbox l os)" "\<And>fig. Q (PlotlyChart fig)"
  shows "follows Q s (outlier_detection L w s)"
  unfolding outlier_detection_def
  by (simp add: follows_intros assms Let_def)

lemma download_follows:
  assumes "Q (Subheader ''Download Dataset'')" "\<And>a b c d. Q (DownloadButton a b c d)"
  shows "follows Q s (download L s)"
  unfolding download_def
  by (simp add: follows_intros assms Let_def)

lemmas stage_follows = descriptive_statistics_follows univariate_analysis_follows
  dynamic_bar_follows dynamic_pie_follows distribution_pie_follows
  correlation_heatmap_follows outlier_detection_follows download_follows

section \<open>The profile and the charts\<close>

lemma profile_state:
  "block [st_show (Success ''Dataset Loaded Successfully''),
      dataset_preview, dataset_info, data_types, classification, missing_values] (loaded d) = profiled d"
  by (simp add: block_Cons block_Nil exec_def st_show_def loaded_def profiled_def shape_def
      dataset_preview_def dataset_info_def data_types_def classification_def missing_values_def)

lemma analysis_profiled:
  "analysis L w (loaded d) =
     block [descriptive_statistics L, univariate_analysis L w,
            dynamic_bar L w, dynamic_pie L w, distribution_pie L w,
            correlation_heatmap L, outlier_detection L w, download L] (profiled d)"
proof -
  have "stages L w =
      [st_show (Success ''Dataset Loaded Successfully''),
       dataset_preview, dataset_info, data_types, classification, missing_values] @
      [descriptive_statistics L, univariate_analysis L w,
            dynamic_bar L w, dynamic_pie L w, distribution_pie L w,
            correlation_heatmap L, outlier_detection L w, download L]"
    by (simp add: stages_def)
  then show ?thesis
    unfolding analysis_def by (simp only: block_append profile_state)
qed

lemma script_loaded:
  assumes "read_csv L bytes = Inr d"
  shows "page (script L w (Some bytes)) = shown (analysis L w (loaded d))"
    and "unhandled (script L w (Some bytes)) = fault (analysis L w (loaded d))"
    and "held (script L w (Some bytes)) = Some (df (analysis L w (loaded d)))"
  using assms by (simp_all add: script_def Let_def)

text \<open>Whatever Q the charts' elements satisfy, the page after the profile grows by Q.\<close>

lemma charts_follow:
  assumes "\<And>m. Q (Subheader m)" "\<And>a. Q (StatsFrame a)" "\<And>m. Q (Info m)"
    "\<And>l os. Q (Selectbox l os)" "\<And>fig. Q (PlotlyChart fig)" "\<And>fig. Q (Pyplot fig)"
    "\<And>m. Q (Warning m)" "\<And>m. Q (Error m)" "\<And>a b c d. Q (DownloadButton a b c d)"
  shows "follows Q (profiled d) (analysis L w (loaded d))"
  unfolding analysis_profiled
  by (simp add: follows_block stage_follows assms)

lemma page_filter_profiled:
  assumes rd: "read_csv L bytes = Inr d"
    and Q: "\<And>m. \<not> P (Subheader m)" "\<And>a. \<not> P (StatsFrame a)" "\<And>m. \<not> P (Info m)"
    "\<And>l os. \<not> P (Selectbox l os)" "\<And>fig. \<not> P (PlotlyChart fig)" "\<And>fig. \<not> P (Pyplot fig)"
    "\<And>m. \<not> P (Warning m)" "\<And>m. \<not> P (Error m)" "\<And>a b c d. \<not> P (DownloadButton a b c d)"
  shows "filter P (page (script L w (Some bytes))) = filter P (shown (profiled d :: ('a, 'b, 'c) state))"
proof -
  have "follows (\<lambda>e. \<not> P e) (profiled d) (analysis L w (loaded d))"
    by (rule charts_follow) (simp_all add: Q)
  then obtain es where "shown (analysis L w (loaded d)) = shown (profiled d :: ('a, 'b, 'c) state) @ es"
    "list_all (\<lambda>e. \<not> P e) es"
    by (auto simp: follows_def)
  then show ?thesis
    by (simp add: script_loaded(1) [OF rd] filter_none)
qed

section \<open>A failed parse\<close>

text \<open>
  C7. When \<open>pd.read_csv\<close> raises on the upload, nothing in the script catches it: the
  run ends with that exception unhandled, the page holds only what lines 11-22 drew
  (no later stage has run, no inline error is shown) and no table is held.
\<close>

theorem parse_failure_unhandled:
  assumes "read_csv L bytes = Inl e"
  shows "script L w (Some bytes) = \<lparr>page = preamble, unhandled = Some e, held = None\<rparr>"
  using assms by (simp add: script_def)

theorem parse_failure_unhandled_witness:
  "read_csv demo_lib [] = Inl (Exn ''No columns to parse from file'') \<and>
   script demo_lib first_options (Some []) =
     \<lparr>page = [Title ''Universal Data Analyzer using EDA'',
              Markdown ''Upload **any CSV dataset** to perform complete Exploratory Data Analysis'',
              FileUploader ''Upload CSV File''],
      unhandled = Some (Exn ''No columns to parse from file''), held = None\<rparr>"
proof -
  have h: "read_csv demo_lib [] = Inl (Exn ''No columns to parse from file'')"
    by (simp add: demo_lib_def demo_csv_def)
  from parse_failure_unhandled [OF h, of first_options] h show ?thesis
    by (simp add: preamble_def)
qed

section \<open>The table is only read\<close>

lemma df_block: "list_all (\<lambda>f. \<forall>s. df (f s) = df s) fs \<Longrightarrow> df (block fs s) = df s"
proof (induction fs arbitrary: s)
  case Nil
  then show ?case by (simp add: block_Nil)
next
  case (Cons f fs)
  then show ?case by (simp add: block_Cons exec_def split: option.splits)
qed

lemma df_follows: "follows (\<lambda>e. True) s (f s) \<Longrightarrow> df (f s) = df s"
  by (simp add: follows_def)

lemma profile_keeps_df:
  "df (dataset_preview s) = df s" "df (dataset_info s) = df s"
  "df (data_types s) = df s" "df (classification s) = df s"
  "df (missing_values s) = df s"
  by (simp_all add: dataset_preview_def dataset_info_def data_types_def classification_def
      missing_values_def df_block st_show_def)

lemma stages_keep_df: "list_all (\<lambda>f. \<forall>s. df (f s) = df s) (stages L w)"
proof -
  have "\<And>s. df (descriptive_statistics L s) = df s"
    "\<And>s. df (univariate_analysis L w s) = df s"
    "\<And>s. df (dynamic_bar L w s) = df s" "\<And>s. df (dynamic_pie L w s) = df s"
    "\<And>s. df (distribution_pie L w s) = df s" "\<And>s. df (correlation_heatmap L s) = df s"
    "\<And>s. df (outlier_detection L w s) = df s" "\<And>s. df (download L s) = df s"
    by (simp_all add: df_follows stage_follows)
  then show ?thesis
    by (simp add: stages_def st_show_def profile_keeps_df)
qed

text \<open>
  C8. No stage assigns to \<open>df\<close>, whatever the widgets select and whatever the library
  calls return or raise: every stage leaves \<open>df\<close> as it found it (lines 101 and 183 set the
  \<open>columns\<close> of \<open>cat_data\<close> and \<open>count_data\<close>, which are frames of their own), and the table
  held when the run ends is the table \<open>read_csv\<close> returned.
\<close>

theorem table_never_mutated:
  "list_all (\<lambda>f. \<forall>s. df (f s) = df s) (stages L w) \<and>
   (\<forall>d. read_csv L bytes = Inr d \<longrightarrow> held (script L w (Some bytes)) = Some d)"
proof -
  have "df (analysis L w (loaded d)) = d" for d
    unfolding analysis_def by (simp add: df_block stages_keep_df loaded_def)
  then show ?thesis
    by (auto simp: stages_keep_df script_loaded(3))
qed

theorem table_never_mutated_witness:
  "read_csv demo_lib demo_csv = Inr demo_table \<and>
   held (script demo_lib first_options (Some demo_csv)) = Some demo_table"
proof -
  have h: "read_csv demo_lib demo_csv = Inr demo_table"
    by (simp add: demo_lib_def)
  from table_never_mutated [of demo_lib first_options demo_csv] h show ?thesis
    by blast
qed


section \<open>The metrics\<close>

text \<open>
  C9. After a successful parse the page has exactly one metric labelled Rows and one
  labelled Columns, and they show the number of rows and the number of columns of the
  parsed table.
\<close>

theorem metrics_report_shape:
  assumes "read_csv L bytes = Inr d"
  shows "filter (metric_named ''Rows'') (page (script L w (Some bytes))) = [Metric ''Rows'' (nrows d)] \<and>
         filter (metric_named ''Columns'') (page (script L w (Some bytes))) =
           [Metric ''Columns'' (length (columns d))]"
  by (simp add: page_filter_profiled [OF assms] metric_named_def profiled_def preamble_def)

theorem metrics_report_shape_witness:
  "read_csv demo_lib demo_csv = Inr demo_table \<and>
   filter (metric_named ''Rows'') (page (script demo_lib first_options (Some demo_csv))) =
     [Metric ''Rows'' 3] \<and>
   filter (metric_named ''Columns'') (page (script demo_lib first_options (Some demo_csv))) =
     [Metric ''Columns'' 4]"
proof -
  have h: "read_csv demo_lib demo_csv = Inr demo_table"
    by (simp add: demo_lib_def)
  from metrics_report_shape [OF h, of first_options] h show ?thesis
    by (simp add: demo_table_def)
qed


lemma sum_bool_Cons: "sum_bool (b # bs) = of_bool b + sum_bool bs"
  by (simp add: sum_bool_def)

lemma card_diff_le_length: "card (set rs - S) \<le> length rs"
proof -
  have "card (set rs - S) \<le> card (set rs)"
    by (rule card_mono) auto
  also have "\<dots> \<le> length rs" by (rule card_length)
  finally show ?thesis .
qed

lemma duplicated_from_count:
  "sum_bool (duplicated_from seen rs) = length rs - card (set rs - set seen)"
proof (induction rs arbitrary: seen)
  case Nil
  show ?case by (simp add: sum_bool_def)
next
  case (Cons r rs)
  define n where "n = card (set rs - set (r # seen))"
  have le: "n \<le> length rs"
    unfolding n_def by (rule card_diff_le_length)
  have IH: "sum_bool (duplicated_from (r # seen) rs) = length rs - n"
    unfolding n_def by (rule Cons.IH)
  show ?case
  proof (cases "r \<in> set seen")
    case True
    have "set (r # rs) - set seen = set rs - set (r # seen)"
      using True by auto
    then have c: "card (set (r # rs) - set seen) = n"
      unfolding n_def by (rule arg_cong)
    have "sum_bool (duplicated_from seen (r # rs)) = Suc (length rs - n)"
      using True IH by (simp add: sum_bool_Cons)
    also have "\<dots> = length (r # rs) - n"
      using le by simp
    finally show ?thesis unfolding c .
  next
    case False
    have fin: "finite (set rs - set (r # seen))" by simp
    have notin: "r \<notin> set rs - set (r # seen)" by simp
    have "set (r # rs) - set seen = insert r (set rs - set (r # seen))"
      using False by auto
    then have "card (set (r # rs) - set seen) = card (insert r (set rs - set (r # seen)))"
      by (rule arg_cong)
    also have "\<dots> = Suc n"
      unfolding n_def using fin notin by (rule card_insert_disjoint)
    finally have c: "card (set (r # rs) - set seen) = Suc n" .
    have "sum_bool (duplicated_from seen (r # rs)) = length rs - n"
      using False IH by (simp add: sum_bool_Cons)
    also have "\<dots> = length (r # rs) - Suc n"
      by simp
    finally show ?thesis unfolding c .
  qed
qed


lemma duplicated_sum: "sum_bool (duplicated d) = nrows d - card (set (rows_of d))"
proof -
  have "length (rows_of d) = nrows d" by (simp add: rows_of_def)
  then show ?thesis
    using duplicated_from_count [of "[]" "rows_of d"] by (simp add: duplicated_def)
qed

text \<open>
  C10. The one metric labelled Duplicate Rows shows the number of rows minus the number
  of distinct rows.
\<close>

theorem duplicate_metric_counts_repeats:
  assumes "read_csv L bytes = Inr d"
  shows "filter (metric_named ''Duplicate Rows'') (page (script L w (Some bytes))) =
           [Metric ''Duplicate Rows'' (nrows d - card (set (rows_of d)))]"
  by (simp add: page_filter_profiled [OF assms] metric_named_def profiled_def preamble_def
      duplicated_sum)

theorem duplicate_metric_counts_repeats_witness:
  "read_csv demo_lib demo_csv = Inr demo_table \<and>
   filter (metric_named ''Duplicate Rows'') (page (script demo_lib first_options (Some demo_csv))) =
     [Metric ''Duplicate Rows'' 1]"
proof -
  have h: "read_csv demo_lib demo_csv = Inr demo_table"
    by (simp add: demo_lib_def)
  have "nrows demo_table - card (set (rows_of demo_table)) = 1"
    by code_simp
  with duplicate_metric_counts_repeats [OF h, of first_options] h show ?thesis
    by simp
qed

section \<open>Missing values\<close>

lemma sum_bool_is_none: "sum_bool (map Option.is_none xs) = length (filter Option.is_none xs)"
  by (induction xs) (simp_all add: sum_bool_def)

lemma missing_count_spec: "missing_count c = spec_null_count c"
  by (simp add: missing_count_def spec_null_count_def isnull_def sum_bool_is_none)

subsection \<open>Rounding to float64\<close>

lemma rint_close: "\<bar>of_int (rint x) - x\<bar> \<le> 1 / 2"
proof -
  have "of_int \<lfloor>x\<rfloor> \<le> x" "x < of_int \<lfloor>x\<rfloor> + 1"
    by linarith+
  then show ?thesis
    by (auto simp: rint_def Let_def abs_le_iff)
qed

lemma rint_nonneg: "0 \<le> x \<Longrightarrow> 0 \<le> rint x"
  by (auto simp: rint_def Let_def)

lemma bitlen_pos: "0 < p \<Longrightarrow> 1 \<le> bitlen p"
  using bitlen_nonneg [of p] bitlen_eq_zero_iff [of p] by linarith

text \<open>\<open>binade\<close> is the exponent of the power of two at or below a positive number.\<close>

lemma binade_bounds:
  assumes "0 < x"
  shows "2 powi binade x \<le> x" and "x < 2 powi (binade x + 1)"
proof -
  obtain p q where pq: "quotient_of x = (p, q)"
    by (cases "quotient_of x")
  have q: "0 < q" using pq by (rule quotient_of_denom_pos)
  have x: "x = of_int p / of_int q" using pq by (rule quotient_of_div)
  have p: "0 < p" using assms q by (simp add: x zero_less_divide_iff)
  define e where "e = bitlen p - bitlen q"
  have bp1: "1 \<le> bitlen p" and bq1: "1 \<le> bitlen q"
    using p q by (simp_all add: bitlen_pos)
  have "(2::int) ^ nat (bitlen p - 1) \<le> p" "p < 2 ^ nat (bitlen p)"
    using bitlen_bounds [OF p] by simp_all
  then have "(of_int (2 ^ nat (bitlen p - 1)) :: rat) \<le> of_int p"
    "(of_int p :: rat) < of_int (2 ^ nat (bitlen p))"
    by (simp_all only: of_int_le_iff of_int_less_iff)
  then have plo: "(2::rat) powi (bitlen p - 1) \<le> of_int p"
    and phi: "of_int p < (2::rat) powi bitlen p"
    using bp1 by (simp_all add: power_int_nonneg_exp)
  have "(2::int) ^ nat (bitlen q - 1) \<le> q" "q < 2 ^ nat (bitlen q)"
    using bitlen_bounds [OF q] by simp_all
  then have "(of_int (2 ^ nat (bitlen q - 1)) :: rat) \<le> of_int q"
    "(of_int q :: rat) < of_int (2 ^ nat (bitlen q))"
    by (simp_all only: of_int_le_iff of_int_less_iff)
  then have qlo: "(2::rat) powi (bitlen q - 1) \<le> of_int q"
    and qhi: "of_int q < (2::rat) powi bitlen q"
    using bq1 by (simp_all add: power_int_nonneg_exp)
  have "e - 1 = (bitlen p - 1) - bitlen q"
    by (simp add: e_def)
  then have "(2::rat) powi (e - 1) = 2 powi ((bitlen p - 1) - bitlen q)"
    by (rule arg_cong)
  also have "\<dots> = 2 powi (bitlen p - 1) / 2 powi bitlen q"
    by (rule power_int_diff) simp
  also have "\<dots> \<le> of_int p / of_int q"
    using plo qhi q p by (intro frac_le) simp_all
  finally have lo: "2 powi (e - 1) \<le> x" by (simp add: x)
  have "x = of_int p / of_int q" by (rule x)
  also have "\<dots> < 2 powi bitlen p / 2 powi (bitlen q - 1)"
    using phi qlo p by (intro frac_less) simp_all
  also have "\<dots> = 2 powi (bitlen p - (bitlen q - 1))"
    by (rule power_int_diff [symmetric]) simp
  also have "\<dots> = 2 powi (e + 1)"
  proof -
    have "bitlen p - (bitlen q - 1) = e + 1"
      by (simp add: e_def)
    then show ?thesis by (rule arg_cong)
  qed
  finally have hi: "x < 2 powi (e + 1)" .
  have b: "binade x = (if 2 powi e \<le> x then e else e - 1)"
    by (simp add: binade_def pq e_def Let_def)
  show "2 powi binade x \<le> x"
    using lo by (simp add: b)
  show "x < 2 powi (binade x + 1)"
    using hi by (auto simp: b not_le)
qed

text \<open>One rounding moves a number by at most \<open>2\<^sup>-\<^sup>5\<^sup>3\<close> of itself.\<close>

lemma fl_error:
  assumes "0 \<le> x"
  shows "\<bar>fl x - x\<bar> \<le> x / 2 ^ 53" and "0 \<le> fl x"
proof -
  show "0 \<le> fl x"
    using assms by (auto simp: fl_def Let_def rint_nonneg sgn_if)
  show "\<bar>fl x - x\<bar> \<le> x / 2 ^ 53"
  proof (cases "x = 0")
    case True
    then show ?thesis by (simp add: fl_def)
  next
    case False
    with assms have pos: "0 < x" by simp
    define u :: rat where "u = 2 powi (binade x - 52)"
    have u: "0 < u" by (simp add: u_def)
    have f: "fl x = of_int (rint (x / u)) * u"
      using pos by (simp add: fl_def Let_def u_def)
    have "\<bar>of_int (rint (x / u)) - x / u\<bar> \<le> 1 / 2"
      by (rule rint_close)
    then have "\<bar>of_int (rint (x / u)) - x / u\<bar> * u \<le> 1 / 2 * u"
      using u by (intro mult_right_mono) simp_all
    moreover have "of_int (rint (x / u)) * u - x = (of_int (rint (x / u)) - x / u) * u"
      using u by (simp add: field_simps)
    then have "\<bar>of_int (rint (x / u)) - x / u\<bar> * u = \<bar>of_int (rint (x / u)) * u - x\<bar>"
      using u by (simp only: abs_mult abs_of_pos)
    ultimately have e1: "\<bar>fl x - x\<bar> \<le> u / 2"
      by (simp add: f)
    have "u = 2 powi binade x / 2 ^ 52"
      by (simp add: u_def power_int_diff)
    also have "\<dots> \<le> x / 2 ^ 52"
      using binade_bounds(1) [OF pos] by (intro divide_right_mono) simp_all
    finally have "u / 2 \<le> x / 2 ^ 53" by simp
    with e1 show ?thesis by linarith
  qed
qed

text \<open>An integer within a half of \<open>y\<close> is within a half of the fraction \<open>N/n\<close> too, when
  \<open>y\<close> is closer to \<open>N/n\<close> than any fraction over \<open>2n\<close> is to another.\<close>

lemma nearest_integer_robust:
  fixes k :: int and N n :: nat and y :: rat
  assumes n: "0 < n" "n < 2 ^ 32"
    and k: "\<bar>of_int k - y\<bar> \<le> 1 / 2"
    and y: "\<bar>y - of_nat N / of_nat n\<bar> \<le> 70000 / 2 ^ 53"
  shows "\<bar>of_int k - of_nat N / of_nat n\<bar> \<le> (1 / 2 :: rat)"
proof (rule ccontr)
  assume "\<not> \<bar>of_int k - of_nat N / of_nat n\<bar> \<le> (1 / 2 :: rat)"
  then have far: "(1 / 2 :: rat) < \<bar>of_int k - of_nat N / of_nat n\<bar>" by simp
  define D :: int where "D = \<bar>2 * int n * k - 2 * int N\<bar>"
  have npos: "(0::rat) < of_nat n" using n by simp
  have "of_int k - of_nat N / of_nat n = (of_int (2 * int n * k - 2 * int N) :: rat) / (2 * of_nat n)"
    using npos by (simp add: field_simps)
  then have eq: "\<bar>of_int k - of_nat N / of_nat n\<bar> = (of_int D :: rat) / (2 * of_nat n)"
    using npos by (simp add: D_def abs_divide del: of_int_diff of_int_mult)
  have "(1 / 2 :: rat) < of_int D / (2 * of_nat n)"
    using far by (simp only: eq)
  then have "(of_nat n :: rat) < of_int D"
    using npos by (simp add: field_simps)
  then have "int n < D"
    by (metis of_int_of_nat_eq of_int_less_iff)
  then have "int n + 1 \<le> D" by simp
  then have "(of_int (int n + 1) :: rat) \<le> of_int D"
    by (simp only: of_int_le_iff)
  then have "(of_nat n + 1 :: rat) \<le> of_int D" by simp
  then have "(of_nat n + 1 :: rat) / (2 * of_nat n) \<le> of_int D / (2 * of_nat n)"
    using npos by (intro divide_right_mono) simp_all
  moreover have "(of_nat n + 1 :: rat) / (2 * of_nat n) = 1 / 2 + 1 / (2 * of_nat n)"
    using npos by (simp add: field_simps)
  ultimately have big:
    "(1 / 2 + 1 / (2 * of_nat n) :: rat) \<le> \<bar>of_int k - of_nat N / of_nat n\<bar>"
    by (simp only: eq)
  have "(of_nat n :: rat) < 2 ^ 32"
    using n(2) by (metis of_nat_less_iff of_nat_numeral of_nat_power)
  then have "(2 * of_nat n :: rat) < 2 ^ 33" by simp
  then have "1 / (2 ^ 33 :: rat) < 1 / (2 * of_nat n)"
    using npos by (intro divide_strict_left_mono) simp_all
  with big have "1 / 2 + 1 / (2 ^ 33 :: rat) < \<bar>of_int k - of_nat N / of_nat n\<bar>"
    by linarith
  moreover have "\<bar>of_int k - of_nat N / of_nat n\<bar> \<le> \<bar>of_int k - y\<bar> + \<bar>y - of_nat N / of_nat n\<bar>"
    by linarith
  ultimately show False
    using k y by simp
qed

text \<open>The three roundings before \<open>rint\<close> do not move the scaled percentage across an
  integer and a half, except from exactly there.\<close>

lemma percent_pipeline:
  fixes c n :: nat
  assumes "0 < n" "n < 2 ^ 32" "c \<le> n"
  shows "\<bar>of_int (rint (fl (fl (fl (of_nat c / of_nat n) * 100) * 100)))
          - of_nat (10000 * c) / of_nat n\<bar> \<le> (1 / 2 :: rat)"
proof -
  define X :: rat where "X = of_nat c / of_nat n"
  define m where "m = fl X"
  define a where "a = fl (m * 100)"
  define y where "y = fl (a * 100)"
  have X: "0 \<le> X" "X \<le> 1"
    using assms by (simp_all add: X_def)
  have small: "(1 / 2 ^ 53 :: rat) \<le> 1" by simp
  have m: "\<bar>m - X\<bar> \<le> X / 2 ^ 53" "0 \<le> m"
    unfolding m_def using fl_error [OF X(1)] by simp_all
  have "X / 2 ^ 53 \<le> 1 / 2 ^ 53"
    using X(2) by (intro divide_right_mono) simp_all
  with m(1) have m1: "\<bar>m - X\<bar> \<le> 1 / 2 ^ 53" by linarith
  with X(2) small have m2: "m \<le> 2" by linarith
  have a0: "0 \<le> m * 100" using m(2) by simp
  have a: "\<bar>a - m * 100\<bar> \<le> m * 100 / 2 ^ 53" "0 \<le> a"
    unfolding a_def using fl_error [OF a0] by simp_all
  have "m * 100 / 2 ^ 53 \<le> 200 / 2 ^ 53"
    using m2 by (intro divide_right_mono) simp_all
  with a(1) have a1: "\<bar>a - m * 100\<bar> \<le> 200 / 2 ^ 53" by linarith
  have "(200 / 2 ^ 53 :: rat) \<le> 1" by simp
  with a1 m2 have a2: "a \<le> 400" by linarith
  have y0: "0 \<le> a * 100" using a(2) by simp
  have y: "\<bar>y - a * 100\<bar> \<le> a * 100 / 2 ^ 53"
    unfolding y_def using fl_error [OF y0] by simp
  have "a * 100 / 2 ^ 53 \<le> 40000 / 2 ^ 53"
    using a2 by (intro divide_right_mono) simp_all
  with y have y1: "\<bar>y - a * 100\<bar> \<le> 40000 / 2 ^ 53" by linarith
  have "\<bar>y - X * 10000\<bar> \<le> 70000 / 2 ^ 53"
    using m1 a1 y1 by linarith
  moreover have "X * 10000 = of_nat (10000 * c) / of_nat n"
    by (simp add: X_def)
  ultimately have err: "\<bar>y - of_nat (10000 * c) / of_nat n\<bar> \<le> 70000 / 2 ^ 53"
    by simp
  have "\<bar>of_int (rint y) - y\<bar> \<le> 1 / 2"
    by (rule rint_close)
  from nearest_integer_robust [OF assms(1,2) this err]
  show ?thesis
    by (simp only: y_def a_def m_def X_def)
qed

subsection \<open>The reported percentage\<close>

lemma missing_pct_run:
  "missing_pct c =
     (if cells c = [] then NaN
      else Fl (fl (of_int (rint (fl (fl (fl (of_nat (spec_null_count c) /
                 of_nat (length (cells c))) * 100) * 100))) / 100)))"
  by (simp add: missing_pct_def spec_null_count_def isnull_def mean_bool_def
      fmul_def fround_def sum_bool_is_none)

lemma missing_pct_two_places:
  assumes len: "length (cells c) = n" and n: "0 < n" "n < 2 ^ 32"
  shows "\<exists>k::int. missing_pct c = Fl (fl (of_int k / 100)) \<and>
           \<bar>of_int k / 100 - of_nat (spec_null_count c) / of_nat n * 100 :: rat\<bar> \<le> 1 / 200"
proof -
  define k where
    "k = rint (fl (fl (fl (of_nat (spec_null_count c) / of_nat n) * 100) * 100))"
  have "spec_null_count c \<le> n"
    using len by (auto simp: spec_null_count_def)
  from percent_pipeline [OF n this]
  have "\<bar>of_int k - of_nat (10000 * spec_null_count c) / of_nat n\<bar> \<le> (1 / 2 :: rat)"
    by (simp only: k_def)
  moreover have "of_int k / 100 - of_nat (spec_null_count c) / of_nat n * 100 =
      (of_int k - of_nat (10000 * spec_null_count c) / of_nat n) / (100 :: rat)"
    by (simp add: field_simps)
  ultimately have "\<bar>of_int k / 100 - of_nat (spec_null_count c) / of_nat n * 100 :: rat\<bar> \<le> 1 / 200"
    by (simp only: abs_divide)
  moreover have "missing_pct c = Fl (fl (of_int k / 100))"
    using len n(1) by (auto simp: missing_pct_run k_def)
  ultimately show ?thesis by blast
qed

lemma missing_df_rows:
  "missing_df d = map (\<lambda>c. (name c, spec_null_count c, missing_pct c)) (columns d)"
  by (simp add: missing_df_def missing_count_spec)

text \<open>
  C4 (amended). After a successful parse the page has exactly one missing-value frame;
  its row for a column holds the column's label, its number of null entries, and a
  percentage that, for a table of fewer than \<open>2\<^sup>3\<^sup>2\<close> rows, is the float64 of a whole number
  of hundredths at most half a hundredth away from null entries over rows times 100:
  the exact percentage rounded to two decimals, where float64 arithmetic decides which
  neighbour an exact tie goes to. With no rows the percentage is \<open>NaN\<close>.
\<close>

theorem missing_percentage_reported:
  assumes "read_csv L bytes = Inr d" "wf_table d" "nrows d < 2 ^ 32"
  shows "filter is_missing_frame (page (script L w (Some bytes))) =
           [MissingFrame (map (\<lambda>c. (name c, spec_null_count c, missing_pct c)) (columns d))] \<and>
         (\<forall>c \<in> set (columns d).
            if nrows d = 0 then missing_pct c = NaN
            else \<exists>k::int. missing_pct c = Fl (fl (of_int k / 100)) \<and>
               \<bar>of_int k / 100 - of_nat (spec_null_count c) / of_nat (nrows d) * 100 :: rat\<bar>
                 \<le> 1 / 200)"
proof -
  have "filter is_missing_frame (page (script L w (Some bytes))) =
           [MissingFrame (map (\<lambda>c. (name c, spec_null_count c, missing_pct c)) (columns d))]"
    by (simp add: page_filter_profiled [OF assms(1)] is_missing_frame_def profiled_def
        preamble_def missing_df_rows)
  moreover have "if nrows d = 0 then missing_pct c = NaN
            else \<exists>k::int. missing_pct c = Fl (fl (of_int k / 100)) \<and>
               \<bar>of_int k / 100 - of_nat (spec_null_count c) / of_nat (nrows d) * 100 :: rat\<bar>
                 \<le> 1 / 200"
    if "c \<in> set (columns d)" for c
  proof -
    have len: "length (cells c) = nrows d"
      using assms(2) that by (simp add: wf_table_def list_all_iff)
    show ?thesis
    proof (cases "nrows d = 0")
      case True
      then show ?thesis using len by (simp add: missing_pct_run)
    next
      case False
      then have "0 < nrows d" by simp
      from missing_pct_two_places [OF len this assms(3)] False show ?thesis
        by simp
    qed
  qed
  ultimately show ?thesis by blast
qed

theorem missing_percentage_reported_witness:
  "read_csv demo_lib demo_csv = Inr demo_table \<and> wf_table demo_table \<and>
   nrows demo_table < 2 ^ 32 \<and>
   filter is_missing_frame (page (script demo_lib first_options (Some demo_csv))) =
     [MissingFrame [(''city'', 1, Fl (fl (3333 / 100))), (''age'', 0, Fl 0),
                    (''score'', 0, Fl 0), (''member'', 0, Fl 0)]]"
proof -
  have h: "read_csv demo_lib demo_csv = Inr demo_table"
    by (simp add: demo_lib_def)
  have wf: "wf_table demo_table"
    by (simp add: wf_table_def demo_table_def)
  have n: "nrows demo_table < 2 ^ 32"
    by (simp add: demo_table_def)
  have m: "map (\<lambda>c. (name c, spec_null_count c, missing_pct c)) (columns demo_table) =
         [(''city'', 1, Fl (fl (3333 / 100))), (''age'', 0, Fl 0), (''score'', 0, Fl 0),
          (''member'', 0, Fl 0)]"
    by code_simp
  from missing_percentage_reported [OF h wf n, of first_options] h wf n show ?thesis
    unfolding m by blast
qed

text \<open>
  C4 as stated fails. Of 160 rows 23 have no \<open>x\<close>: the exact percentage is 14.375, which
  rounds to 14.38 (to the even hundredth, and upwards as well), but \<open>23/160\<close> times 100
  is 14.374999999999998 in float64 and the page shows 14.37.
\<close>

theorem missing_percentage_counterexample:
  "read_csv ties_lib ties_csv = Inr ties_table \<and>
   filter is_missing_frame (page (script ties_lib first_options (Some ties_csv))) =
     [MissingFrame [(''x'', 23, Fl (fl (1437 / 100))), (''y'', 0, Fl 0)]] \<and>
   spec_missing_pct 23 160 = Fl (fl (1438 / 100)) \<and>
   fl (1437 / 100) \<noteq> fl (1438 / 100)"
proof -
  have h: "read_csv ties_lib ties_csv = Inr ties_table"
    by (simp add: ties_lib_def)
  have m: "missing_df ties_table = [(''x'', 23, Fl (fl (1437 / 100))), (''y'', 0, Fl 0)]"
    by code_simp
  have "filter is_missing_frame (page (script ties_lib first_options (Some ties_csv))) =
     [MissingFrame [(''x'', 23, Fl (fl (1437 / 100))), (''y'', 0, Fl 0)]]"
    by (simp add: page_filter_profiled [OF h] is_missing_frame_def profiled_def
        preamble_def m)
  moreover have "spec_missing_pct 23 160 = Fl (fl (1438 / 100))"
    by code_simp
  moreover have "fl (1437 / 100) \<noteq> fl (1438 / 100)"
    by code_simp
  ultimately show ?thesis using h by blast
qed

section \<open>How far a run has come\<close>










section \<open>The correlation heatmap\<close>






section \<open>Charts that need a categorical column\<close>









section \<open>The download\<close>






section \<open>Failures inside the chart builders\<close>

lemma guarded_run:
  assumes "fault s = None"
  shows "block [st_show (Subheader h), try_except body (\<lambda>e. st_show (Error (m @ str_of e)))] s =
     (case fault (body (st_show (Subheader h) s)) of
        None \<Rightarrow> body (st_show (Subheader h) s)
      | Some e \<Rightarrow> (body (st_show (Subheader h) s))
           \<lparr>shown := shown (body (st_show (Subheader h) s)) @ [Error (m @ str_of e)],
            fault := None\<rparr>)"
  using assms
  by (simp add: block_Cons block_Nil exec_def try_except_def st_show_def Let_def
      split: option.splits)

lemma guarded_no_fault:
  assumes "fault s = None"
  shows "fault (block [st_show (Subheader h),
                       try_except body (\<lambda>e. st_show (Error (m @ str_of e)))] s) = None"
  unfolding guarded_run [OF assms] by (simp split: option.splits)

lemma guarded_reports:
  assumes "fault s = None" "fault (body (st_show (Subheader h) s)) = Some e"
  shows "shown (block [st_show (Subheader h),
                       try_except body (\<lambda>e. st_show (Error (m @ str_of e)))] s) =
         shown (body (st_show (Subheader h) s)) @ [Error (m @ str_of e)]"
  unfolding guarded_run [OF assms(1)] using assms(2) by simp

text \<open>
  C3 (amended). The dynamic bar chart, the dynamic pie or donut chart and the category
  distribution pie never end with an exception in flight, and an exception raised inside
  one of them is reported as an error message that quotes it, after whatever the builder
  had drawn. Nothing is said here of the histogram, the value-count bar chart, the
  heatmap and the box plot.
\<close>

theorem guarded_builders_catch:
  assumes "fault s = None"
  shows "fault (dynamic_bar L w s) = None \<and>
         fault (dynamic_pie L w s) = None \<and>
         fault (distribution_pie L w s) = None \<and>
         (\<forall>e. fault (dynamic_bar_body L w (st_show (Subheader ''Dynamic Bar Chart'') s)) = Some e \<longrightarrow>
              shown (dynamic_bar L w s) =
                shown (dynamic_bar_body L w (st_show (Subheader ''Dynamic Bar Chart'') s)) @
                [Error (''Error creating bar chart: '' @ str_of e)]) \<and>
         (\<forall>e. fault (dynamic_pie_body L w (st_show (Subheader ''Dynamic Pie Chart'') s)) = Some e \<longrightarrow>
              shown (dynamic_pie L w s) =
                shown (dynamic_pie_body L w (st_show (Subheader ''Dynamic Pie Chart'') s)) @
                [Error (''Error creating pie chart: '' @ str_of e)]) \<and>
         (\<forall>e. fault (distribution_pie_body L w
                        (st_show (Subheader ''Category Distribution Pie Chart'') s)) = Some e \<longrightarrow>
              shown (distribution_pie L w s) =
                shown (distribution_pie_body L w
                        (st_show (Subheader ''Category Distribution Pie Chart'') s)) @
                [Error (''Error creating distribution chart: '' @ str_of e)])"
  unfolding dynamic_bar_def dynamic_pie_def distribution_pie_def
  using guarded_no_fault [OF assms] guarded_reports [OF assms]
  by blast

theorem guarded_builders_catch_witness:
  "fault (profiled demo_table :: (string, unit, unit) state) = None \<and>
   fault (dynamic_bar_body groupby_raises first_options
            (st_show (Subheader ''Dynamic Bar Chart'') (profiled demo_table))) = Some (Exn ''boom'') \<and>
   fault (dynamic_bar groupby_raises first_options (profiled demo_table)) = None \<and>
   shown (dynamic_bar groupby_raises first_options (profiled demo_table)) =
     shown (dynamic_bar_body groupby_raises first_options
              (st_show (Subheader ''Dynamic Bar Chart'') (profiled demo_table))) @
     [Error ''Error creating bar chart: boom'']"
proof -
  have h: "fault (profiled demo_table :: (string, unit, unit) state) = None"
    by (simp add: profiled_def)
  have b: "fault (dynamic_bar_body groupby_raises first_options
            (st_show (Subheader ''Dynamic Bar Chart'') (profiled demo_table))) = Some (Exn ''boom'')"
    by code_simp
  from guarded_builders_catch [OF h, of groupby_raises first_options] h b show ?thesis
    by simp
qed

text \<open>
  C3 as stated fails. When \<open>px.histogram\<close> raises, the run ends there with the exception
  unhandled: the page stops at the histogram's select box and shows no warning. When
  the \<open>groupby\<close> sum raises, the bar and pie builders catch it, and what they show is an
  error message, not a warning.
\<close>

theorem builders_catch_counterexample:
  "unhandled (script histogram_raises first_options (Some demo_csv)) = Some (Exn ''boom'') \<and>
   filter is_alert (page (script histogram_raises first_options (Some demo_csv))) = [] \<and>
   last (page (script histogram_raises first_options (Some demo_csv))) =
     Selectbox ''Select Numeric Column'' [''age'', ''score''] \<and>
   unhandled (script groupby_raises first_options (Some demo_csv)) = None \<and>
   filter is_alert (page (script groupby_raises first_options (Some demo_csv))) =
     [Error ''Error creating bar chart: boom'', Error ''Error creating pie chart: boom'']"
  by code_simp

end
